theory Spec2Isabelle
  imports Complex_Main
begin

section \<open>Numbers and errors\<close>

text \<open>
  The engine computes with Python floats and, where a value comes out of a numpy array or a
  pandas column, with numpy float64. Both are modelled by \<open>real\<close>: rounding is left
  out, so every equation below is an equation of exact arithmetic.
  What is kept is the behaviour at a zero divisor, which differs between the two:
  a Python float division raises \<open>ZeroDivisionError\<close>, a numpy division returns
  \<open>inf\<close>, \<open>-inf\<close> or \<open>nan\<close> and goes on. Float products and sums that leave the
  float range become \<open>inf\<close> without an exception; a Python float power that leaves it
  raises \<open>OverflowError\<close>, which is kept where the source takes a power.
\<close>

datatype error = InvalidInput | ZeroDivisionError | TypeError | OverflowError

definition py_div :: "real \<Rightarrow> real \<Rightarrow> error + real" where
  "py_div a b = (if b = 0 then Inl ZeroDivisionError else Inr (a / b))"

section \<open>Risk manager (eth\_risk\_manager.py)\<close>

record risk_manager =
  portfolio_value :: real
  max_risk_per_trade :: real
  max_portfolio_exposure :: real

subsection \<open>calculate\_position\_size\<close>

text \<open>
  The explanation is a formatted string; the model keeps which of the two texts is chosen
  and the numbers that are formatted into it, in the order of the source.
\<close>

datatype sizing_explanation =
  Reduced_to_exposure real real real real real
| Within_limits real real real real real

record position_size =
  position_size_coins :: real
  position_size_dollars :: real
  risk_amount :: real
  risk_per_coin :: real
  portfolio_percentage :: real
  max_position_dollars :: real
  explanation :: sizing_explanation

text \<open>
  The method returns \<open>None\<close> on two paths: after printing "Entry price must be greater
  than stop-loss price for long positions" (\<open>Inl InvalidInput\<close>), and from the
  \<open>except\<close> clause that catches every exception of the body (here only a division by
  zero can be raised: \<open>Inl ZeroDivisionError\<close>). The division by \<open>risk_per_coin\<close>
  is reached only with \<open>entry_price > stop_loss_price\<close>, where the divisor is positive.
\<close>

definition calculate_position_size :: "risk_manager \<Rightarrow> real \<Rightarrow> real \<Rightarrow> error + position_size" where
  "calculate_position_size self entry_price stop_loss_price =
    (let risk = portfolio_value self * max_risk_per_trade self in
     if entry_price \<le> stop_loss_price then Inl InvalidInput
     else
       let per_coin = entry_price - stop_loss_price;
           coins = risk / per_coin;
           dollars = coins * entry_price;
           max_dollars = portfolio_value self * max_portfolio_exposure self
       in
       if dollars > max_dollars then
         (case py_div max_dollars entry_price of
            Inl e \<Rightarrow> Inl e
          | Inr coins' \<Rightarrow>
             (let actual_risk_amount = coins' * per_coin in
              case py_div actual_risk_amount (portfolio_value self) of
                Inl e \<Rightarrow> Inl e
              | Inr actual_risk_percentage \<Rightarrow>
                 (case py_div risk (max_risk_per_trade self) of
                    Inl e \<Rightarrow> Inl e
                  | Inr unreduced \<Rightarrow>
                     (case py_div max_dollars (portfolio_value self) of
                        Inl e \<Rightarrow> Inl e
                      | Inr percentage \<Rightarrow>
                          Inr \<lparr>position_size_coins = coins',
                               position_size_dollars = max_dollars,
                               risk_amount = risk,
                               risk_per_coin = per_coin,
                               portfolio_percentage = percentage,
                               max_position_dollars = max_dollars,
                               explanation = Reduced_to_exposure unreduced max_dollars
                                 (max_portfolio_exposure self * 100) actual_risk_amount
                                 (actual_risk_percentage * 100)\<rparr>))))
       else
         (case py_div dollars (portfolio_value self) of
            Inl e \<Rightarrow> Inl e
          | Inr percentage \<Rightarrow>
              Inr \<lparr>position_size_coins = coins,
                   position_size_dollars = dollars,
                   risk_amount = risk,
                   risk_per_coin = per_coin,
                   portfolio_percentage = percentage,
                   max_position_dollars = max_dollars,
                   explanation = Within_limits dollars (max_risk_per_trade self * 100) risk
                     (max_portfolio_exposure self * 100) max_dollars\<rparr>))"

subsection \<open>calculate\_trailing\_stop\<close>

text \<open>
  The dictionary returned on the early path has no \<open>initial_stop_price\<close>,
  \<open>trail_percentage\<close> and \<open>trail_amount\<close> keys; they are optional fields here. Nothing in
  the body can raise (the only division is by the literal 100).
\<close>

datatype trailing_explanation = Not_above_entry | Adjusted real real real | Kept_initial

record trailing_stop =
  ts_entry_price :: real
  ts_current_price :: real
  initial_stop_price :: "real option"
  trailing_stop_price :: real
  trail_percentage :: "real option"
  trail_amount :: "real option"
  is_adjusted :: bool
  ts_explanation :: trailing_explanation

definition calculate_trailing_stop :: "real \<Rightarrow> real \<Rightarrow> real \<Rightarrow> real \<Rightarrow> trailing_stop" where
  "calculate_trailing_stop entry_price current_price initial_stop trail_pct =
    (if current_price \<le> entry_price then
       \<lparr>ts_entry_price = entry_price, ts_current_price = current_price,
        initial_stop_price = None, trailing_stop_price = initial_stop,
        trail_percentage = None, trail_amount = None, is_adjusted = False,
        ts_explanation = Not_above_entry\<rparr>
     else
       let amount = current_price * (trail_pct / 100);
           trailing = current_price - amount
       in
       if trailing > initial_stop then
         \<lparr>ts_entry_price = entry_price, ts_current_price = current_price,
          initial_stop_price = Some initial_stop, trailing_stop_price = trailing,
          trail_percentage = Some trail_pct, trail_amount = Some amount, is_adjusted = True,
          ts_explanation = Adjusted trailing trail_pct current_price\<rparr>
       else
         \<lparr>ts_entry_price = entry_price, ts_current_price = current_price,
          initial_stop_price = Some initial_stop, trailing_stop_price = initial_stop,
          trail_percentage = Some trail_pct, trail_amount = Some amount, is_adjusted = False,
          ts_explanation = Kept_initial\<rparr>)"

text \<open>
  Repeated evaluation for one position: each returned stop is the initial stop of the next
  call, one call per observed price. The list holds the stops in the order returned.
\<close>

fun trailing_stops :: "real \<Rightarrow> real \<Rightarrow> real \<Rightarrow> real list \<Rightarrow> real list" where
  "trailing_stops entry_price trail_pct stop [] = []"
| "trailing_stops entry_price trail_pct stop (current_price # rest) =
     (let stop' = trailing_stop_price
                    (calculate_trailing_stop entry_price current_price stop trail_pct)
      in stop' # trailing_stops entry_price trail_pct stop' rest)"

section \<open>Indicator library (eth\_technical\_analysis.py)\<close>

text \<open>
  A numpy or pandas value that may be \<open>nan\<close> is a \<open>real option\<close>, \<open>None\<close> standing
  for \<open>nan\<close>. Every comparison with \<open>nan\<close> is false.
\<close>

type_synonym npfloat = "real option"

definition nan_less :: "npfloat \<Rightarrow> real \<Rightarrow> bool" where
  "nan_less x c = (case x of None \<Rightarrow> False | Some v \<Rightarrow> v < c)"

definition nan_greater :: "npfloat \<Rightarrow> real \<Rightarrow> bool" where
  "nan_greater x c = (case x of None \<Rightarrow> False | Some v \<Rightarrow> v > c)"

definition nan_le :: "npfloat \<Rightarrow> real \<Rightarrow> bool" where
  "nan_le x c = (case x of None \<Rightarrow> False | Some v \<Rightarrow> v \<le> c)"

text \<open>\<open>np.mean\<close> of an empty array is \<open>nan\<close> (with a warning, not an exception).\<close>

definition np_mean :: "real list \<Rightarrow> npfloat" where
  "np_mean xs = (if xs = [] then None else Some (sum_list xs / real (length xs)))"

text \<open>\<open>np.diff\<close>: the differences of neighbours, one element shorter than the input.\<close>

fun np_diff :: "real list \<Rightarrow> real list" where
  "np_diff (x # y # ys) = (y - x) # np_diff (y # ys)"
| "np_diff [x] = []"
| "np_diff [] = []"

subsection \<open>calculate\_rsi\<close>

text \<open>
  The window is a number of samples, a \<open>nat\<close>. The averages are taken over the first
  \<open>window\<close> differences (\<open>gains[:window]\<close>); with \<open>window = 0\<close> both are means of an
  empty array, \<open>nan\<close>, and so is the returned value. The division \<open>avg_gain / avg_loss\<close>
  is reached with \<open>avg_loss \<noteq> 0\<close> only, and \<open>1 + rs\<close> is at least 1.
\<close>

definition calculate_rsi :: "real list \<Rightarrow> nat \<Rightarrow> npfloat" where
  "calculate_rsi prices window =
    (if length prices < window + 1 then Some 50
     else
       let price_diff = np_diff prices;
           gains = map (\<lambda>d. if d < 0 then 0 else d) price_diff;
           losses = map abs (map (\<lambda>d. if d > 0 then 0 else d) price_diff)
       in
       case (np_mean (take window gains), np_mean (take window losses)) of
         (Some avg_gain, Some avg_loss) \<Rightarrow>
           if avg_loss = 0 then Some 100
           else let rs = avg_gain / avg_loss in Some (100 - 100 / (1 + rs))
       | _ \<Rightarrow> None)"

subsection \<open>calculate\_macd\<close>

text \<open>
  The result is a dictionary with string keys whose values are numbers or strings.
\<close>

datatype pyval = Num real | Str string

type_synonym pydict = "string \<rightharpoonup> pyval"

text \<open>
  \<open>Series.ewm(span=s, adjust=False).mean()\<close>: the first value is the first sample,
  each later value is \<open>(1 - \<alpha>) * previous + \<alpha> * sample\<close> with \<open>\<alpha> = 2 / (s + 1)\<close>.
  pandas raises \<open>ValueError\<close> for a span below 1 (\<open>None\<close> here).
\<close>

fun ewm_from :: "real \<Rightarrow> real \<Rightarrow> real list \<Rightarrow> real list" where
  "ewm_from \<alpha> y [] = []"
| "ewm_from \<alpha> y (x # xs) = (let y' = (1 - \<alpha>) * y + \<alpha> * x in y' # ewm_from \<alpha> y' xs)"

definition ewm_mean :: "nat \<Rightarrow> real list \<Rightarrow> real list option" where
  "ewm_mean period xs =
    (if period < 1 then None
     else let \<alpha> = 2 / (real period + 1) in
       Some (case xs of [] \<Rightarrow> [] | x # rest \<Rightarrow> x # ewm_from \<alpha> x rest))"

definition neutral_only :: pydict where
  "neutral_only = [''signal'' \<mapsto> Str ''neutral'']"

text \<open>
  Every exception of the body is caught and answered with \<open>{"signal": "neutral"}\<close>;
  that is the \<open>ValueError\<close> of a span below 1. The series read with \<open>.iloc[-1]\<close> have the
  length of the prices, at least \<open>slow_period + signal_period \<ge> 2\<close> where the reads are
  reached; an empty series there would raise and give the same dictionary.
\<close>

definition calculate_macd :: "real list \<Rightarrow> nat \<Rightarrow> nat \<Rightarrow> nat \<Rightarrow> pydict" where
  "calculate_macd prices fast_period slow_period signal_period =
    (if length prices < slow_period + signal_period then neutral_only
     else
       case ewm_mean fast_period prices of
         None \<Rightarrow> neutral_only
       | Some ema_fast \<Rightarrow>
          (case ewm_mean slow_period prices of
             None \<Rightarrow> neutral_only
           | Some ema_slow \<Rightarrow>
              (let macd_line = map2 (-) ema_fast ema_slow in
               case ewm_mean signal_period macd_line of
                 None \<Rightarrow> neutral_only
               | Some signal_line \<Rightarrow>
                  (let histogram = map2 (-) macd_line signal_line;
                       signal =
                         (if length histogram < 2 then ''neutral''
                          else
                            let current_histogram = last histogram;
                                previous_histogram = histogram ! (length histogram - 2)
                            in
                            if current_histogram > 0 \<and> previous_histogram < 0 then ''buy''
                            else if current_histogram < 0 \<and> previous_histogram > 0 then ''sell''
                            else ''neutral'')
                   in
                   if histogram = [] then neutral_only
                   else [''macd_line'' \<mapsto> Num (last macd_line),
                         ''signal_line'' \<mapsto> Num (last signal_line),
                         ''histogram'' \<mapsto> Num (last histogram),
                         ''signal'' \<mapsto> Str signal]))))"

subsection \<open>check\_moving\_averages\<close>

text \<open>
  \<open>Series.rolling(window=w).mean()\<close>: \<open>nan\<close> until \<open>w\<close> samples are there, then the mean of
  the last \<open>w\<close> samples; with \<open>w = 0\<close> every window is empty and every value \<open>nan\<close>.
\<close>

definition rolling_mean :: "nat \<Rightarrow> real list \<Rightarrow> npfloat list" where
  "rolling_mean w xs =
     map (\<lambda>i. if 0 < w \<and> w \<le> i + 1
              then Some (sum_list (take w (drop (i + 1 - w) xs)) / real w)
              else None)
         [0..<length xs]"

text \<open>
  The returned dictionary has the one key \<open>signal\<close> on the early paths and five keys
  otherwise; the four others are optional fields.
\<close>

record ma_result =
  ma_signal :: string
  ma_short_value :: "real option"
  ma_long_value :: "real option"
  golden_cross :: "bool option"
  death_cross :: "bool option"

definition ma_signal_only :: "string \<Rightarrow> ma_result" where
  "ma_signal_only s =
     \<lparr>ma_signal = s, ma_short_value = None, ma_long_value = None,
      golden_cross = None, death_cross = None\<rparr>"

definition ma_full :: "real \<Rightarrow> real \<Rightarrow> string \<Rightarrow> ma_result" where
  "ma_full short_current long_current s =
     \<lparr>ma_signal = s, ma_short_value = Some short_current, ma_long_value = Some long_current,
      golden_cross = Some (s = ''golden_cross''), death_cross = Some (s = ''death_cross'')\<rparr>"

text \<open>
  With no prices and \<open>ma_long = 0\<close> the read \<open>.iloc[-1]\<close> raises \<open>IndexError\<close>, answered
  with \<open>{"signal": "error"}\<close>.
\<close>

definition check_moving_averages :: "real list \<Rightarrow> nat \<Rightarrow> nat \<Rightarrow> ma_result" where
  "check_moving_averages prices ma_short ma_long =
    (if length prices < ma_long then ma_signal_only ''insufficient_data''
     else if prices = [] then ma_signal_only ''error''
     else
       let ma_short_values = rolling_mean ma_short prices;
           ma_long_values = rolling_mean ma_long prices
       in
       case (last ma_short_values, last ma_long_values) of
         (Some ma_short_current, Some ma_long_current) \<Rightarrow>
           (let current_state = (if ma_short_current > ma_long_current then ''above'' else ''below'')
            in
            if length ma_short_values < 3 \<or> length ma_long_values < 3 then
              ma_full ma_short_current ma_long_current current_state
            else
              case (ma_short_values ! (length ma_short_values - 2),
                    ma_long_values ! (length ma_long_values - 2)) of
                (Some ma_short_previous, Some ma_long_previous) \<Rightarrow>
                  ma_full ma_short_current ma_long_current
                    (if ma_short_current > ma_long_current \<and> ma_short_previous \<le> ma_long_previous
                       then ''golden_cross''
                     else if ma_short_current < ma_long_current \<and> ma_short_previous \<ge> ma_long_previous
                       then ''death_cross''
                     else if ma_short_current > ma_long_current then ''above''
                     else ''below'')
              | _ \<Rightarrow> ma_full ma_short_current ma_long_current current_state)
       | _ \<Rightarrow> ma_signal_only ''insufficient_data'')"

subsection \<open>identify\_support\_resistance\<close>

text \<open>
  The two tests of the loop body at index \<open>i\<close>: the price is at most (at least) every price
  of the \<open>window\<close> samples before it and of the \<open>window\<close> samples after it.
\<close>

definition is_local_min :: "real list \<Rightarrow> nat \<Rightarrow> nat \<Rightarrow> bool" where
  "is_local_min prices window i =
     (list_all (\<lambda>x. prices ! i \<le> x) (take window (drop (i - window) prices)) \<and>
      list_all (\<lambda>x. prices ! i \<le> x) (take window (drop (i + 1) prices)))"

definition is_local_max :: "real list \<Rightarrow> nat \<Rightarrow> nat \<Rightarrow> bool" where
  "is_local_max prices window i =
     (list_all (\<lambda>x. prices ! i \<ge> x) (take window (drop (i - window) prices)) \<and>
      list_all (\<lambda>x. prices ! i \<ge> x) (take window (drop (i + 1) prices)))"

record sr_levels =
  support :: "real list"
  resistance :: "real list"

text \<open>
  With \<open>window = 0\<close> and no prices the read \<open>prices_array[-1]\<close> raises \<open>IndexError\<close>; the
  \<open>except\<close> clause returns two empty lists. \<open>list.sort(reverse=True)\<close> on numbers is the
  ascending sort reversed.
\<close>

definition identify_support_resistance :: "real list \<Rightarrow> nat \<Rightarrow> sr_levels" where
  "identify_support_resistance prices window =
    (if length prices < window * 3 then \<lparr>support = [], resistance = []\<rparr>
     else
       let indices = [window..<length prices - window];
           support_levels = map (\<lambda>i. prices ! i) (filter (is_local_min prices window) indices);
           resistance_levels = map (\<lambda>i. prices ! i) (filter (is_local_max prices window) indices)
       in
       if prices = [] then \<lparr>support = [], resistance = []\<rparr>
       else
         let current_price = last prices;
             relevant_support = rev (sort (filter (\<lambda>level. level < current_price) support_levels));
             relevant_resistance = sort (filter (\<lambda>level. level > current_price) resistance_levels)
         in \<lparr>support = take 3 relevant_support, resistance = take 3 relevant_resistance\<rparr>)"

subsection \<open>analyze\_price\_data\<close>

text \<open>
  A quotient of two numpy numbers compared with a bound. At a zero divisor (read as
  \<open>+0.0\<close>) the quotient is \<open>inf\<close>, \<open>nan\<close> or \<open>-inf\<close> by the sign of the dividend, and
  only \<open>-inf\<close> is below the bound.
\<close>

definition np_quot_less :: "real \<Rightarrow> real \<Rightarrow> real \<Rightarrow> bool" where
  "np_quot_less a b c = (if b = 0 then a < 0 else a / b < c)"

text \<open>
  \<open>levels and min(abs(current_price - s) for s in levels) / current_price < 0.05\<close>
\<close>

definition near_level :: "real \<Rightarrow> real list \<Rightarrow> bool" where
  "near_level current_price levels =
     (case map (\<lambda>s. abs (current_price - s)) levels of
        [] \<Rightarrow> False
      | d # ds \<Rightarrow> np_quot_less (fold min ds d) current_price 0.05)"

text \<open>The two counters of the body, updated indicator by indicator in the source's order.\<close>

definition signal_scores :: "npfloat \<Rightarrow> pyval \<Rightarrow> string \<Rightarrow> sr_levels \<Rightarrow> real \<Rightarrow> real \<times> real" where
  "signal_scores rsi_value macd_sig ma_sig levels current_price =
    (let buy_signals = 0;
         sell_signals = 0;
         (buy_signals, sell_signals) =
           (if nan_less rsi_value 30 then (buy_signals + 1, sell_signals)
            else if nan_greater rsi_value 70 then (buy_signals, sell_signals + 1)
            else (buy_signals, sell_signals));
         (buy_signals, sell_signals) =
           (if macd_sig = Str ''buy'' then (buy_signals + 1, sell_signals)
            else if macd_sig = Str ''sell'' then (buy_signals, sell_signals + 1)
            else (buy_signals, sell_signals));
         (buy_signals, sell_signals) =
           (if ma_sig = ''golden_cross'' then (buy_signals + 2, sell_signals)
            else if ma_sig = ''death_cross'' then (buy_signals, sell_signals + 2)
            else if ma_sig = ''above'' then (buy_signals + 0.5, sell_signals)
            else if ma_sig = ''below'' then (buy_signals, sell_signals + 0.5)
            else (buy_signals, sell_signals));
         buy_signals =
           (if near_level current_price (support levels) then buy_signals + 0.5 else buy_signals);
         sell_signals =
           (if near_level current_price (resistance levels) then sell_signals + 0.5
            else sell_signals)
     in (buy_signals, sell_signals))"

definition recommend :: "real \<Rightarrow> real \<Rightarrow> string" where
  "recommend buy_signals sell_signals =
    (if buy_signals \<ge> 2 \<and> buy_signals > sell_signals then
       (if buy_signals \<ge> 3 then ''STRONG BUY'' else ''BUY'')
     else if sell_signals \<ge> 2 \<and> sell_signals > buy_signals then
       (if sell_signals \<ge> 3 then ''STRONG SELL'' else ''SELL'')
     else ''HOLD'')"

text \<open>
  The explanation lines are formatted strings; a line is kept as its kind and the value
  formatted into it. The moving-average line of the \<open>above\<close> and \<open>below\<close> signals reads
  \<open>ma_result['ma_long']\<close>, a \<open>KeyError\<close> (\<open>None\<close> here) where the key is missing.
\<close>

datatype analysis_note =
  RSI_oversold npfloat
| RSI_overbought npfloat
| RSI_neutral npfloat
| MACD_signal_is pyval
| Golden_cross_detected
| Death_cross_detected
| Price_above_MA real
| Price_below_MA real

definition rsi_note :: "npfloat \<Rightarrow> analysis_note" where
  "rsi_note rsi_value =
    (if nan_less rsi_value 30 then RSI_oversold rsi_value
     else if nan_greater rsi_value 70 then RSI_overbought rsi_value
     else RSI_neutral rsi_value)"

definition ma_note :: "ma_result \<Rightarrow> analysis_note list option" where
  "ma_note r =
    (if ma_signal r = ''golden_cross'' then Some [Golden_cross_detected]
     else if ma_signal r = ''death_cross'' then Some [Death_cross_detected]
     else if ma_signal r = ''above'' then map_option (\<lambda>v. [Price_above_MA v]) (ma_long_value r)
     else if ma_signal r = ''below'' then map_option (\<lambda>v. [Price_below_MA v]) (ma_long_value r)
     else Some [])"

record analysis =
  price :: real
  rsi :: npfloat
  macd_signal :: pyval
  analysis_golden_cross :: bool
  analysis_death_cross :: bool
  support_levels :: "real list"
  resistance_levels :: "real list"
  buy_score :: real
  sell_score :: real
  recommendation :: string
  analysis_explanation :: "analysis_note list"

text \<open>
  The argument is the \<open>price\<close> column of the data frame. The method returns the empty
  dictionary (\<open>None\<close> here) for an empty frame and from its \<open>except\<close> clause. The indicators
  are called with their default periods: 14 for the RSI, 12, 26 and 9 for the MACD, 50 and
  200 for the moving averages, 10 for support and resistance.
\<close>

definition analyze_price_data :: "real list \<Rightarrow> analysis option" where
  "analyze_price_data prices =
    (if prices = [] then None
     else
       let current_price = last prices;
           rsi_value = calculate_rsi prices 14;
           macd_result = calculate_macd prices 12 26 9;
           ma = check_moving_averages prices 50 200;
           levels = identify_support_resistance prices 10
       in
       case macd_result ''signal'' of
         None \<Rightarrow> None
       | Some macd_sig \<Rightarrow>
          (let (buy_signals, sell_signals) =
                 signal_scores rsi_value macd_sig (ma_signal ma) levels current_price
           in
           case ma_note ma of
             None \<Rightarrow> None
           | Some ma_lines \<Rightarrow>
               Some \<lparr>price = current_price,
                     rsi = rsi_value,
                     macd_signal = macd_sig,
                     analysis_golden_cross = (golden_cross ma = Some True),
                     analysis_death_cross = (death_cross ma = Some True),
                     support_levels = support levels,
                     resistance_levels = resistance levels,
                     buy_score = buy_signals,
                     sell_score = sell_signals,
                     recommendation = recommend buy_signals sell_signals,
                     analysis_explanation = rsi_note rsi_value # MACD_signal_is macd_sig # ma_lines\<rparr>))"

section \<open>Risk manager: stop-loss (eth\_risk\_manager.py)\<close>

subsection \<open>calculate\_stop\_loss\<close>

text \<open>
  The history is the \<open>price\<close> column of the data frame, \<open>None\<close> when no frame is passed.
  The true range at a sample is the largest of three distances built from the high and
  the low of the sample and its predecessor (\<open>rolling(window=2)\<close>) and the previous price
  (\<open>shift()\<close>); all three are \<open>nan\<close> at the first sample.
\<close>

definition true_range :: "real list \<Rightarrow> npfloat list" where
  "true_range ps =
     (case ps of
        [] \<Rightarrow> []
      | p # rest \<Rightarrow>
          None # map (\<lambda>(previous, current).
                   let high = max previous current;
                       low = min previous current;
                       tr1 = high - low;
                       tr2 = abs (high - previous);
                       tr3 = abs (low - previous)
                   in Some (max (max tr1 tr2) tr3))
                 (zip ps rest))"

text \<open>
  \<open>rolling(window=w).mean().iloc[-1]\<close>: the mean of the last \<open>w\<close> values, \<open>nan\<close> when
  fewer than \<open>w\<close> values are there or one of them is \<open>nan\<close>.
\<close>

definition rolling_mean_last :: "nat \<Rightarrow> npfloat list \<Rightarrow> npfloat" where
  "rolling_mean_last w xs =
     (if w = 0 \<or> length xs < w then None
      else case those (drop (length xs - w) xs) of
             None \<Rightarrow> None
           | Some values \<Rightarrow> Some (sum_list values / real w))"

text \<open>
  A method of the result. The key \<open>atr_value\<close> is present for the ATR method only. The
  explanation, a formatting of the same numbers, is left out.
\<close>

record stop_method =
  stop_price :: npfloat
  method_risk_amount :: npfloat
  risk_percentage :: npfloat
  atr_value :: "npfloat option"

record stop_loss_result =
  stop_entry_price :: real
  methods :: "string \<rightharpoonup> stop_method"
  recommended_method :: string
  recommended_stop_price :: npfloat
  stop_error :: "error option"

text \<open>\<open>"name" in methods and methods["name"]["risk_percentage"] <= 0.1\<close>\<close>

definition reasonable_risk :: "(string \<rightharpoonup> stop_method) \<Rightarrow> string \<Rightarrow> bool" where
  "reasonable_risk ms name =
     (case ms name of None \<Rightarrow> False | Some m \<Rightarrow> nan_le (risk_percentage m) 0.1)"

text \<open>
  The entry price is a Python float: \<open>fixed_risk / entry_price\<close> raises at zero, and the
  \<open>except\<close> clause returns the fixed-percentage method alone, with an \<open>error\<close> key. Past
  that division the entry price is not zero; the later quotients have a numpy dividend.
\<close>

definition calculate_stop_loss :: "real \<Rightarrow> real list option \<Rightarrow> real \<Rightarrow> real \<Rightarrow> stop_loss_result" where
  "calculate_stop_loss entry_price historical_prices atr_multiplier fixed_percentage =
    (if entry_price = 0 then
       \<lparr>stop_entry_price = entry_price,
        methods = [''fixed_percentage'' \<mapsto>
          \<lparr>stop_price = Some (entry_price * (1 - fixed_percentage)),
           method_risk_amount = Some (entry_price * fixed_percentage),
           risk_percentage = Some fixed_percentage,
           atr_value = None\<rparr>],
        recommended_method = ''fixed_percentage'',
        recommended_stop_price = Some (entry_price * (1 - fixed_percentage)),
        stop_error = Some ZeroDivisionError\<rparr>
     else
       let fixed_stop = entry_price * (1 - fixed_percentage);
           fixed_risk = entry_price - fixed_stop;
           fixed_risk_percentage = fixed_risk / entry_price;
           with_fixed = [''fixed_percentage'' \<mapsto>
             \<lparr>stop_price = Some fixed_stop,
              method_risk_amount = Some fixed_risk,
              risk_percentage = Some fixed_risk_percentage,
              atr_value = None\<rparr>];
           all_methods =
             (case historical_prices of
                None \<Rightarrow> with_fixed
              | Some ps \<Rightarrow>
                  if ps \<noteq> [] \<and> length ps \<ge> 14 then
                    let atr = rolling_mean_last 14 (true_range ps);
                        atr_stop = map_option (\<lambda>a. entry_price - a * atr_multiplier) atr;
                        atr_risk = map_option (\<lambda>s. entry_price - s) atr_stop;
                        atr_risk_percentage = map_option (\<lambda>r. r / entry_price) atr_risk;
                        with_atr = with_fixed(''atr_based'' \<mapsto>
                          \<lparr>stop_price = atr_stop,
                           method_risk_amount = atr_risk,
                           risk_percentage = atr_risk_percentage,
                           atr_value = Some atr\<rparr>)
                    in
                    if length ps \<ge> 30 then
                      let window = 5;
                          support_levels = map (\<lambda>i. ps ! i)
                            (filter (is_local_min ps window) [window..<length ps - window]);
                          valid_supports = filter (\<lambda>s. s < entry_price) support_levels
                      in
                      case valid_supports of
                        [] \<Rightarrow> with_atr
                      | s # rest \<Rightarrow>
                          let closest_support = fold max rest s;
                              support_risk = entry_price - closest_support;
                              support_risk_percentage = support_risk / entry_price
                          in with_atr(''support_based'' \<mapsto>
                               \<lparr>stop_price = Some closest_support,
                                method_risk_amount = Some support_risk,
                                risk_percentage = Some support_risk_percentage,
                                atr_value = None\<rparr>)
                    else with_atr
                  else with_fixed);
           recommended =
             (if reasonable_risk all_methods ''atr_based'' then ''atr_based''
              else if reasonable_risk all_methods ''support_based'' then ''support_based''
              else ''fixed_percentage'')
       in
       \<lparr>stop_entry_price = entry_price,
        methods = all_methods,
        recommended_method = recommended,
        recommended_stop_price =
          (case all_methods recommended of None \<Rightarrow> None | Some m \<Rightarrow> stop_price m),
        stop_error = None\<rparr>)"

section \<open>Signal scorer (eth\_investment\_advisor.py)\<close>

subsection \<open>evaluate\_macd\_signal\<close>

text \<open>\<open>macd_data.get(key, default)\<close>\<close>

definition dict_get :: "pydict \<Rightarrow> string \<Rightarrow> pyval \<Rightarrow> pyval" where
  "dict_get d k fallback = (case d k of None \<Rightarrow> fallback | Some v \<Rightarrow> v)"

text \<open>
  Ordering comparisons and \<open>abs\<close> on a value read from the dictionary: a string there
  raises \<open>TypeError\<close>. \<open>and\<close> evaluates its right operand only when the left one is true.
  The method has no \<open>try\<close>: the error reaches the caller.
\<close>

definition py_less :: "pyval \<Rightarrow> real \<Rightarrow> error + bool" where
  "py_less v c = (case v of Num x \<Rightarrow> Inr (x < c) | Str s \<Rightarrow> Inl TypeError)"

definition py_greater :: "pyval \<Rightarrow> real \<Rightarrow> error + bool" where
  "py_greater v c = (case v of Num x \<Rightarrow> Inr (x > c) | Str s \<Rightarrow> Inl TypeError)"

definition py_abs :: "pyval \<Rightarrow> error + real" where
  "py_abs v = (case v of Num x \<Rightarrow> Inr (abs x) | Str s \<Rightarrow> Inl TypeError)"

definition py_and :: "error + bool \<Rightarrow> error + bool \<Rightarrow> error + bool" where
  "py_and a b = (case a of Inl e \<Rightarrow> Inl e | Inr l \<Rightarrow> if l then b else Inr False)"

text \<open>\<open>histogram > abs(previous)\<close> and \<open>abs(histogram) > abs(previous)\<close>\<close>

definition greater_abs :: "pyval \<Rightarrow> pyval \<Rightarrow> error + bool" where
  "greater_abs histogram previous =
     (case py_abs previous of Inl e \<Rightarrow> Inl e | Inr p \<Rightarrow> py_greater histogram p)"

definition abs_greater_abs :: "pyval \<Rightarrow> pyval \<Rightarrow> error + bool" where
  "abs_greater_abs histogram previous =
     (case py_abs histogram of
        Inl e \<Rightarrow> Inl e
      | Inr h \<Rightarrow> (case py_abs previous of Inl e \<Rightarrow> Inl e | Inr p \<Rightarrow> Inr (h > p)))"

record signal_vote =
  signal_strength :: real
  vote_explanation :: string

definition evaluate_macd_signal :: "pydict \<Rightarrow> error + signal_vote" where
  "evaluate_macd_signal macd_data =
    (let macd_line = dict_get macd_data ''macd_line'' (Num 0);
         signal_line = dict_get macd_data ''signal_line'' (Num 0);
         histogram = dict_get macd_data ''histogram'' (Num 0);
         signal = dict_get macd_data ''signal'' (Str ''neutral'');
         previous = dict_get macd_data ''previous_histogram'' (Num 0)
     in
     if signal = Str ''buy'' then
       (case py_and (py_less macd_line 0)
               (py_and (py_less signal_line 0) (py_greater histogram 0)) of
          Inl e \<Rightarrow> Inl e
        | Inr from_below_zero \<Rightarrow>
            Inr (if from_below_zero
                 then \<lparr>signal_strength = 2.0, vote_explanation =
                        ''MACD line crossed above signal line from below zero, strong buy signal''\<rparr>
                 else \<lparr>signal_strength = 1.5, vote_explanation =
                        ''MACD line crossed above signal line, buy signal''\<rparr>))
     else if signal = Str ''sell'' then
       (case py_and (py_greater macd_line 0)
               (py_and (py_greater signal_line 0) (py_less histogram 0)) of
          Inl e \<Rightarrow> Inl e
        | Inr from_above_zero \<Rightarrow>
            Inr (if from_above_zero
                 then \<lparr>signal_strength = - 2.0, vote_explanation =
                        ''MACD line crossed below signal line from above zero, strong sell signal''\<rparr>
                 else \<lparr>signal_strength = - 1.5, vote_explanation =
                        ''MACD line crossed below signal line, sell signal''\<rparr>))
     else
       (case py_and (py_greater histogram 0) (greater_abs histogram previous) of
          Inl e \<Rightarrow> Inl e
        | Inr bullish \<Rightarrow>
            if bullish
            then Inr \<lparr>signal_strength = 0.5, vote_explanation =
                       ''MACD histogram is positive and increasing, bullish momentum''\<rparr>
            else
              (case py_and (py_less histogram 0) (abs_greater_abs histogram previous) of
                 Inl e \<Rightarrow> Inl e
               | Inr bearish \<Rightarrow>
                   if bearish
                   then Inr \<lparr>signal_strength = - 0.5, vote_explanation =
                              ''MACD histogram is negative and decreasing, bearish momentum''\<rparr>
                   else Inr \<lparr>signal_strength = 0, vote_explanation =
                              ''MACD shows no clear signal''\<rparr>)))"

section \<open>Performance evaluator (eth\_performance\_tracker.py)\<close>

text \<open>
  A trade and a decision as the tracker stores them. A date is the instant the date string
  denotes, in seconds, a \<open>nat\<close>; the free-text notes of a trade and the indicator
  snapshot of a decision are not read by the metrics and are left out.
\<close>

record trade =
  trade_id :: nat
  trade_date :: nat
  trade_type :: string
  trade_price :: real
  trade_amount :: real
  trade_value :: real

record decision =
  decision_id :: nat
  decision_date :: nat
  decision_recommendation :: string
  decision_price :: real

record performance_tracker =
  trades :: "trade list"
  decisions :: "decision list"

subsection \<open>calculate\_portfolio\_value\<close>

record portfolio =
  eth_balance :: real
  total_invested :: real
  total_withdrawn :: real
  current_value :: real
  realized_pl :: real
  unrealized_pl :: real
  total_pl :: real
  roi :: real

text \<open>The loop over the trades: balance, invested and withdrawn totals.\<close>

fun trade_totals :: "trade list \<Rightarrow> real \<times> real \<times> real \<Rightarrow> real \<times> real \<times> real" where
  "trade_totals [] acc = acc"
| "trade_totals (t # ts) (balance, invested, withdrawn) =
     trade_totals ts
       (if trade_type t = ''buy''
          then (balance + trade_amount t, invested + trade_value t, withdrawn)
        else if trade_type t = ''sell''
          then (balance - trade_amount t, invested, withdrawn + trade_value t)
        else (balance, invested, withdrawn))"

text \<open>
  The division is guarded by \<open>total_invested > 0\<close>; nothing in the body raises, and the
  returned dictionary (which also holds the current price and a time stamp) is never empty.
\<close>

definition calculate_portfolio_value :: "performance_tracker \<Rightarrow> real \<Rightarrow> portfolio" where
  "calculate_portfolio_value self current_price =
    (let (balance, invested, withdrawn) = trade_totals (trades self) (0, 0, 0);
         value = balance * current_price;
         realized = withdrawn - invested;
         unrealized = value - (invested - withdrawn);
         total = realized + unrealized
     in \<lparr>eth_balance = balance, total_invested = invested, total_withdrawn = withdrawn,
         current_value = value, realized_pl = realized, unrealized_pl = unrealized,
         total_pl = total, roi = (if invested > 0 then total / invested else 0)\<rparr>)"

subsection \<open>calculate\_performance\_metrics\<close>

text \<open>
  The price change between two rows of the decision frame is a quotient of numpy numbers:
  at a zero price (read as \<open>+0.0\<close>) it is \<open>inf\<close>, \<open>-inf\<close> or \<open>nan\<close> by the sign of the
  difference, and the comparisons go on with that value.
\<close>

definition np_quot_greater :: "real \<Rightarrow> real \<Rightarrow> real \<Rightarrow> bool" where
  "np_quot_greater a b c = (if b = 0 then a > 0 else a / b > c)"

definition np_abs_quot_less :: "real \<Rightarrow> real \<Rightarrow> real \<Rightarrow> bool" where
  "np_abs_quot_less a b c = (if b = 0 then False else abs (a / b) < c)"

text \<open>The test of the loop body on a decision and the next one.\<close>

definition decision_correct :: "decision \<Rightarrow> decision \<Rightarrow> bool" where
  "decision_correct current_decision next_decision =
    (let difference = decision_price next_decision - decision_price current_decision;
         base = decision_price current_decision
     in (decision_recommendation current_decision = ''BUY'' \<and> np_quot_greater difference base 0.02) \<or>
        (decision_recommendation current_decision = ''SELL'' \<and> np_quot_less difference base (- 0.02)) \<or>
        (decision_recommendation current_decision = ''HOLD'' \<and> np_abs_quot_less difference base 0.05))"

text \<open>
  The loop \<open>for i in range(len(decisions_df) - 1)\<close> over the frame sorted by date: the
  number of correct decisions and the number of evaluated ones.
\<close>

fun evaluate_pairs :: "decision list \<Rightarrow> nat \<times> nat" where
  "evaluate_pairs (d # d' # ds) =
     (let (correct_decisions, total_evaluated) = evaluate_pairs (d' # ds)
      in ((if decision_correct d d' then 1 else 0) + correct_decisions, 1 + total_evaluated))"
| "evaluate_pairs [d] = (0, 0)"
| "evaluate_pairs [] = (0, 0)"

text \<open>
  The largest finite float, and \<open>base ** exponent\<close> on Python floats. The power raises
  \<open>OverflowError\<close> when its magnitude leaves the float range. A negative base gives a
  real number for a whole exponent and a complex number otherwise; the value of a complex
  result is not modelled, its overflow is.
\<close>

definition float_max :: real where
  "float_max = (2 ^ 53 - 1) * 2 ^ 971"

datatype py_power = Real_power real | Complex_power

definition py_float_pow :: "real \<Rightarrow> real \<Rightarrow> error + py_power" where
  "py_float_pow base exponent =
    (if base \<noteq> 0 \<and> abs base powr exponent > float_max then Inl OverflowError
     else if base \<ge> 0 then Inr (Real_power (base powr exponent))
     else if exponent \<in> \<int> then
       Inr (Real_power ((if even \<lfloor>exponent\<rfloor> then 1 else - 1) * (abs base powr exponent)))
     else Inr Complex_power)"

text \<open>\<open>power - 1\<close>\<close>

fun minus_one :: "py_power \<Rightarrow> py_power" where
  "minus_one (Real_power x) = Real_power (x - 1)"
| "minus_one Complex_power = Complex_power"

text \<open>
  The earliest and the latest trade date (\<open>trades_df["date"].min()\<close> and \<open>.max()\<close>), read
  on a ledger that is not empty, and \<open>(datetime.now() - first_trade_date).days\<close>: whole
  days, rounded down, negative for a first trade dated after the clock.
\<close>

definition first_trade_date_of :: "trade list \<Rightarrow> nat" where
  "first_trade_date_of ts =
     (case ts of [] \<Rightarrow> 0 | t # rest \<Rightarrow> fold min (map trade_date rest) (trade_date t))"

definition last_trade_date_of :: "trade list \<Rightarrow> nat" where
  "last_trade_date_of ts =
     (case ts of [] \<Rightarrow> 0 | t # rest \<Rightarrow> fold max (map trade_date rest) (trade_date t))"

definition days_invested_of :: "trade list \<Rightarrow> nat \<Rightarrow> int" where
  "days_invested_of ts now = (int now - int (first_trade_date_of ts)) div 86400"

text \<open>
  The method answers with an error dictionary for an empty ledger and with \<open>None\<close> from
  its \<open>except\<close> clause, which catches every exception of the body.
\<close>

datatype metrics_error = No_trade_history | Raised error

text \<open>
  The keys of the metrics dictionary. The clock \<open>datetime.now()\<close> is an argument, in
  seconds. The time-based block writes the two trade dates, the days invested and, for a
  positive number of days, the annualized return \<open>(1 + roi) ** (365 / days_invested) - 1\<close>;
  that power is the one operation of the body that can raise. The keys derived from the
  annualized return by a product or a difference (its percentage, the benchmark return
  and the excess return) are left out, and so is the risk block (volatility, Sharpe ratio,
  drawdown; computed only with 30 trades or more): pandas arithmetic that writes keys of
  its own and does not raise. \<open>annualized_return\<close>, \<open>recommendation_counts\<close> and the two
  accuracy keys are absent (\<open>None\<close>) when the source does not write them. The frame is
  sorted by date with a stable sort; dates that are pairwise different have one sorted
  order.
\<close>

record metrics =
  total_trades :: nat
  buy_trades :: nat
  sell_trades :: nat
  metric_realized_pl :: real
  metric_unrealized_pl :: real
  metric_total_pl :: real
  metric_roi :: real
  roi_percentage :: real
  first_trade_date :: nat
  last_trade_date :: nat
  days_invested :: int
  annualized_return :: "py_power option"
  recommendation_counts :: "(string \<rightharpoonup> nat) option"
  decision_accuracy :: "real option"
  decision_accuracy_percentage :: "real option"

definition calculate_performance_metrics ::
    "performance_tracker \<Rightarrow> real \<Rightarrow> nat \<Rightarrow> metrics_error + metrics" where
  "calculate_performance_metrics self current_price now =
    (let p = calculate_portfolio_value self current_price in
     if trades self = [] then Inl No_trade_history
     else
       let days = days_invested_of (trades self) now;
           annualized =
             (if days > 0 then
                (case py_float_pow (1 + roi p) (365 / real_of_int days) of
                   Inl e \<Rightarrow> Inl e
                 | Inr growth \<Rightarrow> Inr (Some (minus_one growth)))
              else Inr None)
       in
       case annualized of
         Inl e \<Rightarrow> Inl (Raised e)
       | Inr annualized_value \<Rightarrow>
          (let decisions_df = sort_key decision_date (decisions self);
               labels = map decision_recommendation decisions_df;
               (correct_decisions, total_evaluated) = evaluate_pairs decisions_df;
               accuracy =
                 (if decisions self \<noteq> [] \<and> total_evaluated > 0
                  then Some (real correct_decisions / real total_evaluated) else None)
           in Inr \<lparr>total_trades = length (trades self),
                   buy_trades = length (filter (\<lambda>t. trade_type t = ''buy'') (trades self)),
                   sell_trades = length (filter (\<lambda>t. trade_type t = ''sell'') (trades self)),
                   metric_realized_pl = realized_pl p,
                   metric_unrealized_pl = unrealized_pl p,
                   metric_total_pl = total_pl p,
                   metric_roi = roi p,
                   roi_percentage = roi p * 100,
                   first_trade_date = first_trade_date_of (trades self),
                   last_trade_date = last_trade_date_of (trades self),
                   days_invested = days,
                   annualized_return = annualized_value,
                   recommendation_counts =
                     (if decisions self = [] then None
                      else Some (\<lambda>label. if label \<in> set labels
                                           then Some (count_list labels label) else None)),
                   decision_accuracy = accuracy,
                   decision_accuracy_percentage = map_option (\<lambda>a. a * 100) accuracy\<rparr>))"

subsection \<open>evaluate\_decision\_history\<close>

text \<open>
  The columns the method adds to the sorted decision frame before it evaluates the rows:
  \<open>next_price\<close> is the price column shifted up by one row, its last entry set to the
  current price, and \<open>price_change\<close> is the difference to the row's own price.
\<close>

definition next_price_column :: "performance_tracker \<Rightarrow> real \<Rightarrow> real list" where
  "next_price_column self current_price =
    (let prices = map decision_price (sort_key decision_date (decisions self))
     in if prices = [] then [] else tl prices @ [current_price])"

definition price_change_column :: "performance_tracker \<Rightarrow> real \<Rightarrow> real list" where
  "price_change_column self current_price =
     map2 (-) (next_price_column self current_price)
       (map decision_price (sort_key decision_date (decisions self)))"

section \<open>Properties of the risk manager\<close>

subsection \<open>Position sizing\<close>

text \<open>
  With the configuration the specification asks for (a positive portfolio value, a positive
  risk fraction and a positive exposure fraction) a call with the entry above the stop
  always returns a result: when the clamp triggers, the raw dollar size is above a
  positive cap, so the entry price is not zero.
\<close>

lemma position_size_valid_configuration:
  assumes "entry_price > stop_loss_price" and "portfolio_value self > 0"
    and "max_risk_per_trade self > 0" and "max_portfolio_exposure self > 0"
  shows "\<exists>r. calculate_position_size self entry_price stop_loss_price = Inr r"
proof -
  have cap: "portfolio_value self * max_portfolio_exposure self > 0"
    using assms by simp
  have "entry_price \<noteq> 0"
    if "portfolio_value self * max_risk_per_trade self / (entry_price - stop_loss_price) * entry_price
          > portfolio_value self * max_portfolio_exposure self"
    using that cap by auto
  then show ?thesis
    using assms by (auto simp add: calculate_position_size_def py_div_def Let_def)
qed

text \<open>
  C1, as stated, at a portfolio value of zero: the entry is above the stop, and the call
  returns no result, because \<open>portfolio_percentage = position_size_dollars / portfolio_value\<close>
  raises and the \<open>except\<close> clause returns \<open>None\<close>.
\<close>

theorem position_size_zero_portfolio_counterexample:
  "calculate_position_size
     \<lparr>portfolio_value = 0, max_risk_per_trade = 0.02, max_portfolio_exposure = 0.25\<rparr>
     3000 2800 = Inl ZeroDivisionError"
  by (simp add: calculate_position_size_def py_div_def)

text \<open>
  C1 (amended). For every call with \<open>entry_price > stop_loss_price\<close> in which no division
  by zero arises (the portfolio value is not zero and, when the raw dollar size exceeds
  the exposure cap, neither the entry price nor \<open>max_risk_per_trade\<close> is zero), the call
  returns a result with \<open>risk_amount = portfolio_value * max_risk_per_trade\<close>; with
  \<open>coins = risk_amount / (entry_price - stop_loss_price)\<close> and
  \<open>dollars = coins * entry_price\<close>, the result holds these two values unless \<open>dollars\<close>
  exceeds \<open>portfolio_value * max_portfolio_exposure\<close>, in which case
  \<open>position_size_dollars\<close> is exactly that cap and \<open>position_size_coins\<close> is the cap
  divided by the entry price. In both cases the returned dollar size is at most the cap.
\<close>

theorem position_size_formulas:
  assumes "entry_price > stop_loss_price"
    and "portfolio_value self \<noteq> 0"
    and "portfolio_value self * max_risk_per_trade self / (entry_price - stop_loss_price) * entry_price
           > portfolio_value self * max_portfolio_exposure self
         \<Longrightarrow> entry_price \<noteq> 0 \<and> max_risk_per_trade self \<noteq> 0"
  shows "\<exists>r. calculate_position_size self entry_price stop_loss_price = Inr r
     \<and> risk_amount r = portfolio_value self * max_risk_per_trade self
     \<and> (let coins = risk_amount r / (entry_price - stop_loss_price);
             dollars = coins * entry_price;
             cap = portfolio_value self * max_portfolio_exposure self
         in (if dollars > cap
             then position_size_dollars r = cap \<and> position_size_coins r = cap / entry_price
             else position_size_dollars r = dollars \<and> position_size_coins r = coins)
            \<and> position_size_dollars r \<le> cap)"
  using assms
  by (auto simp add: calculate_position_size_def py_div_def Let_def)

text \<open>
  The example of the specification: entry 3000, stop 2800, portfolio 10000, 2 percent risk,
  25 percent exposure. The raw size is one coin (3000 dollars), above the cap of 2500.
\<close>

theorem position_size_formulas_witness:
  "\<exists>r. calculate_position_size
          \<lparr>portfolio_value = 10000, max_risk_per_trade = 0.02, max_portfolio_exposure = 0.25\<rparr>
          3000 2800 = Inr r
     \<and> risk_amount r = 200 \<and> position_size_dollars r = 2500
     \<and> position_size_coins r = 2500 / 3000"
  using position_size_formulas
    [of 2800 3000 "\<lparr>portfolio_value = 10000, max_risk_per_trade = 0.02, max_portfolio_exposure = 0.25\<rparr>"]
  by (auto simp add: Let_def split: if_splits)

text \<open>
  C7. For every input with \<open>entry_price \<le> stop_loss_price\<close>, whatever the portfolio value,
  the risk fraction and the exposure fraction are, \<open>calculate_position_size\<close> fails with
  the invalid-input error: it returns the error value and no position-sizing result.
\<close>

theorem position_size_invalid_input:
  "entry_price \<le> stop_loss_price \<Longrightarrow>
     calculate_position_size self entry_price stop_loss_price = Inl InvalidInput"
  by (simp add: calculate_position_size_def)

theorem position_size_invalid_input_witness:
  "(2800::real) \<le> 3000 \<and>
   calculate_position_size
     \<lparr>portfolio_value = 10000, max_risk_per_trade = 0.02, max_portfolio_exposure = 0.25\<rparr>
     2800 3000 = Inl InvalidInput"
  using position_size_invalid_input
    [of 2800 3000 "\<lparr>portfolio_value = 10000, max_risk_per_trade = 0.02, max_portfolio_exposure = 0.25\<rparr>"]
  by simp

subsection \<open>Trailing stop\<close>

text \<open>
  C5. For every entry price, current price, initial stop and trail percentage,
  \<open>calculate_trailing_stop\<close> returns the initial stop when the current price is not above
  the entry, and otherwise the maximum of the initial stop and
  \<open>current_price * (1 - trail_percentage / 100)\<close>; the returned stop is never below the
  initial stop; and when each returned stop is fed in as the next initial stop, the
  sequence of stops never decreases (for every sequence of current prices, the
  non-decreasing ones among them).
\<close>

theorem trailing_stop_ratchet:
  "trailing_stop_price (calculate_trailing_stop entry_price current_price initial_stop trail_pct)
     = (if current_price \<le> entry_price then initial_stop
        else max initial_stop (current_price * (1 - trail_pct / 100)))
   \<and> initial_stop \<le> trailing_stop_price
         (calculate_trailing_stop entry_price current_price initial_stop trail_pct)
   \<and> sorted (initial_stop # trailing_stops entry_price trail_pct initial_stop prices)"
proof -
  have eq: "trailing_stop_price (calculate_trailing_stop e c s t)
     = (if c \<le> e then s else max s (c * (1 - t / 100)))" for e c s t
    by (simp add: calculate_trailing_stop_def Let_def algebra_simps max_def)
  have ge: "s \<le> trailing_stop_price (calculate_trailing_stop e c s t)" for e c s t
    by (simp add: eq)
  have "sorted (s # trailing_stops entry_price trail_pct s prices)" for s
  proof (induction prices arbitrary: s)
    case Nil
    show ?case by simp
  next
    case (Cons c cs)
    let ?s' = "trailing_stop_price (calculate_trailing_stop entry_price c s trail_pct)"
    have "sorted (?s' # trailing_stops entry_price trail_pct ?s' cs)" by (rule Cons.IH)
    moreover have "s \<le> ?s'" by (rule ge)
    ultimately show ?case by (auto simp add: Let_def)
  qed
  with eq ge show ?thesis by blast
qed

theorem trailing_stop_ratchet_witness:
  "trailing_stop_price (calculate_trailing_stop 3000 3100 2800 0.5) = 3084.5
   \<and> trailing_stops 3000 0.5 2800 [2900, 3100, 3200, 3200] = [2800, 3084.5, 3184, 3184]"
  using trailing_stop_ratchet [where entry_price = 3000 and current_price = 3100
      and initial_stop = 2800 and trail_pct = "0.5" and prices = "[2900, 3100, 3200, 3200]"]
  by (simp add: calculate_trailing_stop_def Let_def)

section \<open>Properties of the indicator library\<close>

subsection \<open>RSI\<close>









subsection \<open>Support and resistance\<close>

lemma sorted_wrt_ge_rev_sort: "sorted_wrt (\<lambda>a b. a \<ge> b) (rev (sort (xs::real list)))"
  by (simp add: sorted_wrt_rev)

text \<open>
  C8. For every price series, \<open>identify_support_resistance\<close> returns empty support and
  resistance lists when the series has fewer than \<open>3 * window\<close> samples. Otherwise every
  returned support level is strictly below the most recent price, the support list is
  sorted in descending order and has at most 3 elements; every returned resistance level
  is strictly above the most recent price, the resistance list is sorted in ascending
  order and has at most 3 elements.
\<close>

theorem support_resistance_levels:
  "(length prices < 3 * window \<longrightarrow>
      support (identify_support_resistance prices window) = [] \<and>
      resistance (identify_support_resistance prices window) = []) \<and>
   (3 * window \<le> length prices \<longrightarrow>
      (\<forall>s \<in> set (support (identify_support_resistance prices window)). s < last prices) \<and>
      sorted_wrt (\<lambda>a b. a \<ge> b) (support (identify_support_resistance prices window)) \<and>
      length (support (identify_support_resistance prices window)) \<le> 3 \<and>
      (\<forall>r \<in> set (resistance (identify_support_resistance prices window)). r > last prices) \<and>
      sorted (resistance (identify_support_resistance prices window)) \<and>
      length (resistance (identify_support_resistance prices window)) \<le> 3)"
proof (intro conjI impI)
  assume "length prices < 3 * window"
  then show "support (identify_support_resistance prices window) = []"
    and "resistance (identify_support_resistance prices window) = []"
    by (simp_all add: identify_support_resistance_def mult.commute)
next
  assume "3 * window \<le> length prices"
  show "\<forall>s \<in> set (support (identify_support_resistance prices window)). s < last prices"
    by (auto simp add: identify_support_resistance_def Let_def dest!: in_set_takeD)
  show "sorted_wrt (\<lambda>a b. a \<ge> b) (support (identify_support_resistance prices window))"
    by (simp add: identify_support_resistance_def Let_def sorted_wrt_ge_rev_sort)
  show "length (support (identify_support_resistance prices window)) \<le> 3"
    by (simp add: identify_support_resistance_def Let_def)
  show "\<forall>r \<in> set (resistance (identify_support_resistance prices window)). r > last prices"
    by (auto simp add: identify_support_resistance_def Let_def dest!: in_set_takeD)
  show "sorted (resistance (identify_support_resistance prices window))"
    by (simp add: identify_support_resistance_def Let_def)
  show "length (resistance (identify_support_resistance prices window)) \<le> 3"
    by (simp add: identify_support_resistance_def Let_def)
qed

theorem support_resistance_levels_witness:
  "3 * 1 \<le> length [5, 3, 6, 2, 7, 4, 4.5 :: real] \<and>
   support (identify_support_resistance [5, 3, 6, 2, 7, 4, 4.5] 1) = [4, 3, 2] \<and>
   resistance (identify_support_resistance [5, 3, 6, 2, 7, 4, 4.5] 1) = [6, 7] \<and>
   length (support (identify_support_resistance [5, 3, 6, 2, 7, 4, 4.5] 1)) \<le> 3 \<and>
   sorted (resistance (identify_support_resistance [5, 3, 6, 2, 7, 4, 4.5] 1))"
  using support_resistance_levels [of "[5, 3, 6, 2, 7, 4, 4.5]" 1]
  by (simp add: identify_support_resistance_def is_local_min_def is_local_max_def Let_def)

subsection \<open>Moving-average cross\<close>

lemma last_rolling_mean:
  "prices \<noteq> [] \<Longrightarrow> last (rolling_mean w prices) = rolling_mean w prices ! (length prices - 1)"
  by (simp add: last_conv_nth rolling_mean_def)

lemma rolling_mean_nth:
  "i < length prices \<Longrightarrow> rolling_mean w prices ! i =
     (if 0 < w \<and> w \<le> i + 1 then Some (sum_list (take w (drop (i + 1 - w) prices)) / real w) else None)"
  by (simp add: rolling_mean_def)

lemma ma_flags_exclusive:
  "\<not> (golden_cross (check_moving_averages prices ma_short ma_long) = Some True \<and>
      death_cross (check_moving_averages prices ma_short ma_long) = Some True)"
  by (auto simp add: check_moving_averages_def ma_signal_only_def ma_full_def Let_def
      split: option.splits)

lemma ma_signal_full: "ma_signal (ma_full a b s) = s"
  by (simp add: ma_full_def)

text \<open>
  C9. For every price series the result of \<open>check_moving_averages\<close> never has both the
  \<open>golden_cross\<close> and the \<open>death_cross\<close> flag true. When the current and the previous
  value of the short and of the long moving average are defined (the series has a previous
  sample, and the rolling means at the last two samples are numbers), the signal is
  \<open>golden_cross\<close> exactly when the short average was at most the long one at the previous
  sample and is above it at the current sample, and \<open>death_cross\<close> exactly when it was at
  least the long one and is below it now.
\<close>

theorem ma_cross_detection:
  "\<not> (golden_cross (check_moving_averages prices ma_short ma_long) = Some True \<and>
      death_cross (check_moving_averages prices ma_short ma_long) = Some True) \<and>
   (2 \<le> length prices \<and>
    rolling_mean ma_short prices ! (length prices - 1) = Some short_current \<and>
    rolling_mean ma_long prices ! (length prices - 1) = Some long_current \<and>
    rolling_mean ma_short prices ! (length prices - 2) = Some short_previous \<and>
    rolling_mean ma_long prices ! (length prices - 2) = Some long_previous \<longrightarrow>
      (ma_signal (check_moving_averages prices ma_short ma_long) = ''golden_cross'' \<longleftrightarrow>
         short_previous \<le> long_previous \<and> short_current > long_current) \<and>
      (ma_signal (check_moving_averages prices ma_short ma_long) = ''death_cross'' \<longleftrightarrow>
         short_previous \<ge> long_previous \<and> short_current < long_current))"
proof (rule conjI, rule ma_flags_exclusive, rule impI)
  assume a: "2 \<le> length prices \<and>
    rolling_mean ma_short prices ! (length prices - 1) = Some short_current \<and>
    rolling_mean ma_long prices ! (length prices - 1) = Some long_current \<and>
    rolling_mean ma_short prices ! (length prices - 2) = Some short_previous \<and>
    rolling_mean ma_long prices ! (length prices - 2) = Some long_previous"
  then have ne: "prices \<noteq> []" by auto
  have len: "length (rolling_mean w prices) = length prices" for w
    by (simp add: rolling_mean_def)
  from a have long: "0 < ma_long" "ma_long \<le> length prices - 1" and short: "0 < ma_short" "ma_short \<le> length prices - 1"
    by (auto simp add: rolling_mean_nth split: if_splits)
  have nl: "\<not> length prices < ma_long" using long by simp
  have sig: "ma_signal (check_moving_averages prices ma_short ma_long) =
      (if length prices < 3 then (if short_current > long_current then ''above'' else ''below'')
       else if short_current > long_current \<and> short_previous \<le> long_previous then ''golden_cross''
       else if short_current < long_current \<and> short_previous \<ge> long_previous then ''death_cross''
       else if short_current > long_current then ''above'' else ''below'')"
    using a ne nl
    by (simp add: check_moving_averages_def Let_def last_rolling_mean len ma_signal_full)
  have same: "short_current = long_current" if "length prices < 3"
  proof -
    from that a have "length prices = 2" by simp
    with long short have "ma_short = 1" "ma_long = 1" by simp_all
    with a show ?thesis by auto
  qed
  show "(ma_signal (check_moving_averages prices ma_short ma_long) = ''golden_cross'' \<longleftrightarrow>
         short_previous \<le> long_previous \<and> short_current > long_current) \<and>
      (ma_signal (check_moving_averages prices ma_short ma_long) = ''death_cross'' \<longleftrightarrow>
         short_previous \<ge> long_previous \<and> short_current < long_current)"
    using sig same by auto
qed

theorem ma_cross_detection_witness:
  "ma_signal (check_moving_averages [3, 1, 4] 1 2) = ''golden_cross'' \<and>
   golden_cross (check_moving_averages [3, 1, 4] 1 2) = Some True \<and>
   death_cross (check_moving_averages [3, 1, 4] 1 2) = Some False \<and>
   ma_signal (check_moving_averages [1, 4, 1] 1 2) = ''death_cross''"
  using ma_cross_detection [of "[3, 1, 4]" 1 2 4 "5 / 2" 1 2]
    ma_cross_detection [of "[1, 4, 1]" 1 2 1 "5 / 2" 4 "5 / 2"]
  by (simp add: rolling_mean_def check_moving_averages_def ma_full_def Let_def)

subsection \<open>Recommendation label\<close>

lemma recommend_labels:
  "(recommend b s = ''STRONG BUY'' \<longleftrightarrow> b \<ge> 3 \<and> b > s) \<and>
   (recommend b s = ''BUY'' \<longleftrightarrow> 2 \<le> b \<and> b < 3 \<and> b > s) \<and>
   (recommend b s = ''STRONG SELL'' \<longleftrightarrow> s \<ge> 3 \<and> s > b) \<and>
   (recommend b s = ''SELL'' \<longleftrightarrow> 2 \<le> s \<and> s < 3 \<and> s > b) \<and>
   (recommend b s = ''HOLD'' \<longleftrightarrow> \<not> (b \<ge> 2 \<and> b > s) \<and> \<not> (s \<ge> 2 \<and> s > b))"
  by (auto simp add: recommend_def)

lemma analysis_recommendation:
  "analyze_price_data prices = Some a \<Longrightarrow>
     recommendation a = recommend (buy_score a) (sell_score a)"
  unfolding analyze_price_data_def Let_def
  by (auto split: if_splits option.splits prod.splits)

text \<open>
  C4. For every analysis produced by \<open>analyze_price_data\<close>, the recommendation label is
  \<open>STRONG BUY\<close> exactly when the buy score is at least 3 and above the sell score,
  \<open>BUY\<close> exactly when the buy score is at least 2, below 3 and above the sell score,
  \<open>STRONG SELL\<close> and \<open>SELL\<close> symmetrically for the sell score, and \<open>HOLD\<close> in every
  other case; whenever the two scores are equal the label is \<open>HOLD\<close>.
\<close>

theorem recommendation_label:
  assumes "analyze_price_data prices = Some a"
  shows "(recommendation a = ''STRONG BUY'' \<longleftrightarrow> buy_score a \<ge> 3 \<and> buy_score a > sell_score a) \<and>
   (recommendation a = ''BUY'' \<longleftrightarrow>
      2 \<le> buy_score a \<and> buy_score a < 3 \<and> buy_score a > sell_score a) \<and>
   (recommendation a = ''STRONG SELL'' \<longleftrightarrow>
      sell_score a \<ge> 3 \<and> sell_score a > buy_score a) \<and>
   (recommendation a = ''SELL'' \<longleftrightarrow>
      2 \<le> sell_score a \<and> sell_score a < 3 \<and> sell_score a > buy_score a) \<and>
   (recommendation a = ''HOLD'' \<longleftrightarrow>
      \<not> (buy_score a \<ge> 2 \<and> buy_score a > sell_score a) \<and>
      \<not> (sell_score a \<ge> 2 \<and> sell_score a > buy_score a)) \<and>
   (buy_score a = sell_score a \<longrightarrow> recommendation a = ''HOLD'')"
proof -
  have r: "recommendation a = recommend (buy_score a) (sell_score a)"
    using assms by (rule analysis_recommendation)
  have "buy_score a = sell_score a \<longrightarrow> recommend (buy_score a) (sell_score a) = ''HOLD''"
    by (simp add: recommend_def)
  with recommend_labels [of "buy_score a" "sell_score a"] show ?thesis
    unfolding r by blast
qed

text \<open>
  A frame of one price: every indicator answers with its insufficient-data value, both
  scores are 0 and the label is \<open>HOLD\<close>.
\<close>

lemma analyze_single_price:
  "analyze_price_data [100] =
     Some \<lparr>price = 100, rsi = Some 50, macd_signal = Str ''neutral'',
       analysis_golden_cross = False, analysis_death_cross = False,
       support_levels = [], resistance_levels = [], buy_score = 0,
       sell_score = 0, recommendation = ''HOLD'',
       analysis_explanation = [RSI_neutral (Some 50), MACD_signal_is (Str ''neutral'')]\<rparr>"
  by (simp add: analyze_price_data_def calculate_rsi_def calculate_macd_def neutral_only_def
      check_moving_averages_def ma_signal_only_def identify_support_resistance_def
      signal_scores_def nan_less_def nan_greater_def near_level_def recommend_def
      ma_note_def rsi_note_def Let_def)

theorem recommendation_label_witness:
  "\<exists>a. analyze_price_data [100] = Some a \<and> buy_score a = 0 \<and> sell_score a = 0 \<and>
        recommendation a = ''HOLD''"
  using recommendation_label [OF analyze_single_price]
  by (simp add: analyze_single_price)

section \<open>Properties of the signal scorer\<close>

lemma macd_result_cases:
  "calculate_macd prices fast_period slow_period signal_period = neutral_only \<or>
   (\<exists>m s h sig. calculate_macd prices fast_period slow_period signal_period =
      [''macd_line'' \<mapsto> Num m, ''signal_line'' \<mapsto> Num s, ''histogram'' \<mapsto> Num h,
       ''signal'' \<mapsto> Str sig])"
  unfolding calculate_macd_def Let_def
  by (auto split: option.split)

lemma neutral_only_vote:
  "evaluate_macd_signal neutral_only =
     Inr \<lparr>signal_strength = 0, vote_explanation = ''MACD shows no clear signal''\<rparr>"
  by (simp add: evaluate_macd_signal_def neutral_only_def dict_get_def py_and_def py_greater_def
      py_less_def greater_abs_def abs_greater_abs_def py_abs_def)

lemma full_neutral_vote:
  "evaluate_macd_signal
     [''macd_line'' \<mapsto> Num m, ''signal_line'' \<mapsto> Num s, ''histogram'' \<mapsto> Num h,
      ''signal'' \<mapsto> Str ''neutral''] =
   Inr (if h > 0 then \<lparr>signal_strength = 0.5, vote_explanation =
                         ''MACD histogram is positive and increasing, bullish momentum''\<rparr>
        else if h < 0 then \<lparr>signal_strength = - 0.5, vote_explanation =
                         ''MACD histogram is negative and decreasing, bearish momentum''\<rparr>
        else \<lparr>signal_strength = 0, vote_explanation = ''MACD shows no clear signal''\<rparr>)"
  by (simp add: evaluate_macd_signal_def dict_get_def py_and_def py_greater_def
      py_less_def greater_abs_def abs_greater_abs_def py_abs_def)

text \<open>
  C10. A dictionary produced by \<open>calculate_macd\<close> never has a \<open>previous_histogram\<close> key.
  For such a dictionary with the signal \<open>neutral\<close>, \<open>evaluate_macd_signal\<close> returns a
  vote whose strength is 0.5 exactly when the histogram is strictly positive, -0.5 exactly
  when it is strictly negative, and 0 when it is zero: the absent previous histogram is
  read as 0, and the test that the histogram grows is a test of its sign. The histogram
  is the value the scorer reads, 0 for the dictionary that holds the signal alone.
\<close>

theorem macd_momentum_is_sign_test:
  "calculate_macd prices fast_period slow_period signal_period ''previous_histogram'' = None \<and>
   (calculate_macd prices fast_period slow_period signal_period ''signal'' = Some (Str ''neutral'')
    \<longrightarrow> (\<exists>vote h.
          evaluate_macd_signal (calculate_macd prices fast_period slow_period signal_period)
            = Inr vote \<and>
          dict_get (calculate_macd prices fast_period slow_period signal_period)
            ''histogram'' (Num 0) = Num h \<and>
          (signal_strength vote = 0.5 \<longleftrightarrow> h > 0) \<and>
          (signal_strength vote = - 0.5 \<longleftrightarrow> h < 0) \<and>
          (h = 0 \<longrightarrow> signal_strength vote = 0)))"
proof -
  let ?d = "calculate_macd prices fast_period slow_period signal_period"
  consider (short) "?d = neutral_only"
    | (full) m s h sig where "?d = [''macd_line'' \<mapsto> Num m, ''signal_line'' \<mapsto> Num s,
        ''histogram'' \<mapsto> Num h, ''signal'' \<mapsto> Str sig]"
    using macd_result_cases by blast
  then show ?thesis
  proof cases
    case short
    have "?d ''previous_histogram'' = None"
      by (simp add: short neutral_only_def)
    moreover have "dict_get ?d ''histogram'' (Num 0) = Num 0"
      by (simp add: short neutral_only_def dict_get_def)
    moreover note neutral_only_vote
    ultimately show ?thesis by (simp add: short)
  next
    case full
    have none: "?d ''previous_histogram'' = None"
      by (simp add: full)
    have hist: "dict_get ?d ''histogram'' (Num 0) = Num h"
      by (simp add: full dict_get_def)
    have "\<exists>vote. evaluate_macd_signal ?d = Inr vote \<and>
          (signal_strength vote = 0.5 \<longleftrightarrow> h > 0) \<and>
          (signal_strength vote = - 0.5 \<longleftrightarrow> h < 0) \<and>
          (h = 0 \<longrightarrow> signal_strength vote = 0)"
      if "?d ''signal'' = Some (Str ''neutral'')"
    proof -
      from that have "sig = ''neutral''" by (simp add: full)
      then have "?d = [''macd_line'' \<mapsto> Num m, ''signal_line'' \<mapsto> Num s,
        ''histogram'' \<mapsto> Num h, ''signal'' \<mapsto> Str ''neutral'']"
        using full by simp
      then show ?thesis by (simp add: full_neutral_vote)
    qed
    with none hist show ?thesis by auto
  qed
qed

theorem macd_momentum_is_sign_test_witness:
  "calculate_macd [10, 12, 13, 16, 20] 2 3 2 ''signal'' = Some (Str ''neutral'') \<and>
   calculate_macd [10, 12, 13, 16, 20] 2 3 2 ''histogram'' = Some (Num (49 / 243)) \<and>
   calculate_macd [10, 12, 13, 16, 20] 2 3 2 ''previous_histogram'' = None \<and>
   (\<exists>vote. evaluate_macd_signal (calculate_macd [10, 12, 13, 16, 20] 2 3 2) = Inr vote \<and>
      signal_strength vote = 0.5)"
proof -
  have d: "calculate_macd [10, 12, 13, 16, 20] 2 3 2 =
      [''macd_line'' \<mapsto> Num (103 / 81), ''signal_line'' \<mapsto> Num (260 / 243),
       ''histogram'' \<mapsto> Num (49 / 243), ''signal'' \<mapsto> Str ''neutral'']"
    by (simp add: calculate_macd_def ewm_mean_def Let_def)
  have h: "dict_get (calculate_macd [10, 12, 13, 16, 20] 2 3 2) ''histogram'' (Num 0)
      = Num (49 / 243)"
    by (simp add: d dict_get_def)
  from macd_momentum_is_sign_test [of "[10, 12, 13, 16, 20]" 2 3 2] h
  have "\<exists>vote. evaluate_macd_signal (calculate_macd [10, 12, 13, 16, 20] 2 3 2) = Inr vote \<and>
      signal_strength vote = 0.5"
    by (auto simp add: d)
  then show ?thesis by (simp add: d)
qed

section \<open>Properties of the stop-loss methods\<close>

lemma is_local_min_iff:
  assumes "w \<le> i" and "i + w < length ps"
  shows "is_local_min ps w i \<longleftrightarrow> (\<forall>j. i - w \<le> j \<and> j \<le> i + w \<longrightarrow> ps ! i \<le> ps ! j)"
proof -
  have len: "length (take w (drop (i - w) ps)) = w"
    using assms by simp
  have "take w (drop (i - w) ps) ! n = ps ! (i - w + n)" if "n < w" for n
    using that assms by simp
  then have before: "list_all (\<lambda>x. ps ! i \<le> x) (take w (drop (i - w) ps))
      \<longleftrightarrow> (\<forall>n<w. ps ! i \<le> ps ! (i - w + n))"
    unfolding list_all_length len by simp
  have len': "length (take w (drop (i + 1) ps)) = w"
    using assms by simp
  have "take w (drop (i + 1) ps) ! n = ps ! (i + 1 + n)" if "n < w" for n
    using that assms by simp
  then have after: "list_all (\<lambda>x. ps ! i \<le> x) (take w (drop (i + 1) ps))
      \<longleftrightarrow> (\<forall>n<w. ps ! i \<le> ps ! (i + 1 + n))"
    unfolding list_all_length len' by simp
  show ?thesis
  proof
    assume "is_local_min ps w i"
    then have b: "\<forall>n<w. ps ! i \<le> ps ! (i - w + n)" and a: "\<forall>n<w. ps ! i \<le> ps ! (i + 1 + n)"
      using before after by (simp_all add: is_local_min_def)
    show "\<forall>j. i - w \<le> j \<and> j \<le> i + w \<longrightarrow> ps ! i \<le> ps ! j"
    proof (intro allI impI)
      fix j assume j: "i - w \<le> j \<and> j \<le> i + w"
      consider "j < i" | "j = i" | "i < j" by linarith
      then show "ps ! i \<le> ps ! j"
      proof cases
        case 1
        with j assms have "j - (i - w) < w" "i - w + (j - (i - w)) = j" by auto
        with b show ?thesis by metis
      next
        case 2
        then show ?thesis by simp
      next
        case 3
        with j have "j - (i + 1) < w" "i + 1 + (j - (i + 1)) = j" by auto
        with a show ?thesis by metis
      qed
    qed
  next
    assume r: "\<forall>j. i - w \<le> j \<and> j \<le> i + w \<longrightarrow> ps ! i \<le> ps ! j"
    have "ps ! i \<le> ps ! (i - w + n)" if "n < w" for n
    proof -
      have "i - w \<le> i - w + n \<and> i - w + n \<le> i + w" using that assms by auto
      with r show ?thesis by blast
    qed
    moreover have "ps ! i \<le> ps ! (i + 1 + n)" if "n < w" for n
    proof -
      have "i - w \<le> i + 1 + n \<and> i + 1 + n \<le> i + w" using that assms by auto
      with r show ?thesis by blast
    qed
    ultimately show "is_local_min ps w i"
      using before after by (simp add: is_local_min_def)
  qed
qed

lemma valid_supports_nonempty:
  "filter (\<lambda>s. s < entry_price)
       (map (\<lambda>i. ps ! i) (filter (is_local_min ps 5) [5..<length ps - 5])) \<noteq> []
   \<longleftrightarrow> (\<exists>i. 5 \<le> i \<and> i + 5 < length ps \<and>
          (\<forall>j. i - 5 \<le> j \<and> j \<le> i + 5 \<longrightarrow> ps ! i \<le> ps ! j) \<and> ps ! i < entry_price)"
proof -
  have "filter (\<lambda>s. s < entry_price)
       (map (\<lambda>i. ps ! i) (filter (is_local_min ps 5) [5..<length ps - 5])) \<noteq> []
     \<longleftrightarrow> (\<exists>i. 5 \<le> i \<and> i + 5 < length ps \<and> is_local_min ps 5 i \<and> ps ! i < entry_price)"
    by (auto simp add: filter_empty_conv)
  also have "\<dots> \<longleftrightarrow> (\<exists>i. 5 \<le> i \<and> i + 5 < length ps \<and>
          (\<forall>j. i - 5 \<le> j \<and> j \<le> i + 5 \<longrightarrow> ps ! i \<le> ps ! j) \<and> ps ! i < entry_price)"
    using is_local_min_iff [of 5 _ ps] by blast
  finally show ?thesis .
qed

lemma stop_loss_methods:
  assumes "entry_price \<noteq> 0"
  shows "methods (calculate_stop_loss entry_price history atr_multiplier fixed_percentage)
           ''fixed_percentage'' =
         Some \<lparr>stop_price = Some (entry_price * (1 - fixed_percentage)),
              method_risk_amount = Some (entry_price - entry_price * (1 - fixed_percentage)),
              risk_percentage =
                Some ((entry_price - entry_price * (1 - fixed_percentage)) / entry_price),
              atr_value = None\<rparr>"
    and "methods (calculate_stop_loss entry_price history atr_multiplier fixed_percentage)
           ''atr_based'' \<noteq> None \<longleftrightarrow> (\<exists>ps. history = Some ps \<and> 14 \<le> length ps)"
    and "methods (calculate_stop_loss entry_price history atr_multiplier fixed_percentage)
           ''support_based'' \<noteq> None \<longleftrightarrow>
         (\<exists>ps. history = Some ps \<and> 30 \<le> length ps \<and>
            filter (\<lambda>s. s < entry_price)
              (map (\<lambda>i. ps ! i) (filter (is_local_min ps 5) [5..<length ps - 5])) \<noteq> [])"
  using assms
  by (auto simp add: calculate_stop_loss_def Let_def split: option.splits list.splits)

lemma stop_loss_recommended:
  "entry_price \<noteq> 0 \<Longrightarrow>
   recommended_method (calculate_stop_loss entry_price history atr_multiplier fixed_percentage) =
     (if reasonable_risk
           (methods (calculate_stop_loss entry_price history atr_multiplier fixed_percentage))
           ''atr_based'' then ''atr_based''
      else if reasonable_risk
           (methods (calculate_stop_loss entry_price history atr_multiplier fixed_percentage))
           ''support_based'' then ''support_based''
      else ''fixed_percentage'')"
  by (simp add: calculate_stop_loss_def Let_def)

lemma reasonable_risk_iff:
  "reasonable_risk ms name \<longleftrightarrow>
     (\<exists>m p. ms name = Some m \<and> risk_percentage m = Some p \<and> p \<le> 0.1)"
  by (auto simp add: reasonable_risk_def nan_le_def split: option.splits)

text \<open>
  With exactly 14 samples the window of the ATR holds the first true range, which is
  \<open>nan\<close>: the ATR method is present, its numbers are \<open>nan\<close>, and it is not recommended.
\<close>

lemma atr_nan_at_14_samples:
  "length ps = 14 \<Longrightarrow> rolling_mean_last 14 (true_range ps) = None"
  by (cases ps) (simp_all add: rolling_mean_last_def true_range_def)

text \<open>
  C2. For every call of \<open>calculate_stop_loss\<close> with a positive entry price: the
  \<open>fixed_percentage\<close> method is present with
  \<open>stop_price = entry_price * (1 - fixed_percentage)\<close>; an \<open>atr_based\<close> method is present
  when (and only when) a history of at least 14 samples is supplied; a \<open>support_based\<close>
  method is present when (and only when) the history has at least 30 samples and holds a
  local minimum below the entry, a sample at an index from 5 up to the length less 5 that
  is at most every sample of the 5 before and the 5 after it; and the recommended method is
  \<open>atr_based\<close> if that method is present with a risk percentage of at most 0.1, else
  \<open>support_based\<close> if that method is present with a risk percentage of at most 0.1, else
  \<open>fixed_percentage\<close>.
\<close>

theorem stop_loss_methods_and_preference:
  assumes "entry_price > 0"
  shows
   "(\<exists>m. methods (calculate_stop_loss entry_price history atr_multiplier fixed_percentage)
            ''fixed_percentage'' = Some m \<and>
         stop_price m = Some (entry_price * (1 - fixed_percentage))) \<and>
    (methods (calculate_stop_loss entry_price history atr_multiplier fixed_percentage)
       ''atr_based'' \<noteq> None \<longleftrightarrow> (\<exists>ps. history = Some ps \<and> 14 \<le> length ps)) \<and>
    (methods (calculate_stop_loss entry_price history atr_multiplier fixed_percentage)
       ''support_based'' \<noteq> None \<longleftrightarrow>
     (\<exists>ps. history = Some ps \<and> 30 \<le> length ps \<and>
        (\<exists>i. 5 \<le> i \<and> i + 5 < length ps \<and>
           (\<forall>j. i - 5 \<le> j \<and> j \<le> i + 5 \<longrightarrow> ps ! i \<le> ps ! j) \<and> ps ! i < entry_price))) \<and>
    recommended_method (calculate_stop_loss entry_price history atr_multiplier fixed_percentage) =
      (if \<exists>m p. methods (calculate_stop_loss entry_price history atr_multiplier fixed_percentage)
                  ''atr_based'' = Some m \<and> risk_percentage m = Some p \<and> p \<le> 0.1
       then ''atr_based''
       else if \<exists>m p. methods
                  (calculate_stop_loss entry_price history atr_multiplier fixed_percentage)
                  ''support_based'' = Some m \<and> risk_percentage m = Some p \<and> p \<le> 0.1
       then ''support_based''
       else ''fixed_percentage'')"
proof -
  from assms have ne: "entry_price \<noteq> 0" by simp
  note m = stop_loss_methods [OF ne, of history atr_multiplier fixed_percentage]
  have fixed: "\<exists>m. methods (calculate_stop_loss entry_price history atr_multiplier fixed_percentage)
            ''fixed_percentage'' = Some m \<and>
         stop_price m = Some (entry_price * (1 - fixed_percentage))"
    by (simp add: m(1))
  have support: "methods (calculate_stop_loss entry_price history atr_multiplier fixed_percentage)
       ''support_based'' \<noteq> None \<longleftrightarrow>
     (\<exists>ps. history = Some ps \<and> 30 \<le> length ps \<and>
        (\<exists>i. 5 \<le> i \<and> i + 5 < length ps \<and>
           (\<forall>j. i - 5 \<le> j \<and> j \<le> i + 5 \<longrightarrow> ps ! i \<le> ps ! j) \<and> ps ! i < entry_price))"
    unfolding m(3) valid_supports_nonempty ..
  show ?thesis
    using fixed m(2) support stop_loss_recommended [OF ne, of history atr_multiplier fixed_percentage]
    unfolding reasonable_risk_iff by (intro conjI) 
qed

theorem stop_loss_methods_and_preference_witness:
  "(0::real) < 100 \<and>
   recommended_method
     (calculate_stop_loss 100
        (Some [100, 101, 99, 100, 98, 99, 97, 98, 96, 97, 95, 96, 94, 95, 93])
        2 0.05) = ''atr_based'' \<and>
   recommended_stop_price
     (calculate_stop_loss 100
        (Some [100, 101, 99, 100, 98, 99, 97, 98, 96, 97, 95, 96, 94, 95, 93])
        2 0.05) = Some 97 \<and>
   recommended_method (calculate_stop_loss 100 None 2 0.05) = ''fixed_percentage''"
  using stop_loss_methods_and_preference
      [of 100 "Some [100, 101, 99, 100, 98, 99, 97, 98, 96, 97, 95, 96, 94, 95, 93]"
          2 "0.05"]
    stop_loss_methods_and_preference [of 100 None 2 "0.05"]
  by (simp add: calculate_stop_loss_def true_range_def rolling_mean_last_def
      reasonable_risk_def nan_le_def Let_def)

section \<open>Properties of the performance evaluator\<close>





text \<open>
  The sibling method \<open>evaluate_decision_history\<close> is the one that pairs the last decision
  with the current price: the last entry of its \<open>next_price\<close> column is the current price.
\<close>

lemma next_price_of_last_decision:
  "decisions self \<noteq> [] \<Longrightarrow>
     length (next_price_column self current_price) = length (decisions self) \<and>
     last (next_price_column self current_price) = current_price"
proof -
  assume "decisions self \<noteq> []"
  then have "length (sort_key decision_date (decisions self)) \<noteq> 0"
    by simp
  then have "sort_key decision_date (decisions self) \<noteq> []"
    by (simp del: length_sort)
  with \<open>decisions self \<noteq> []\<close> show ?thesis
    by (cases "decisions self") (simp_all add: next_price_column_def Let_def)
qed

text \<open>
  The power of the time-based block raises for a large return over a short time: one buy of
  one coin at 100, dated 25 hours before the clock, and a current price of 1000 give a
  return of 8 after one day, and \<open>9 ** 365\<close> is not a float. The \<open>except\<close> clause
  answers with \<open>None\<close>, whatever the decision log holds.
\<close>

lemma annualized_return_overflow:
  "calculate_performance_metrics
      \<lparr>trades = [\<lparr>trade_id = 1, trade_date = 0, trade_type = ''buy'', trade_price = 100,
                    trade_amount = 1, trade_value = 100\<rparr>],
       decisions = []\<rparr> 1000 90000 = Inl (Raised OverflowError)"
  by (simp add: calculate_performance_metrics_def calculate_portfolio_value_def
      days_invested_of_def first_trade_date_of_def last_trade_date_of_def py_float_pow_def
      float_max_def decision_correct_def np_quot_greater_def np_quot_less_def
      np_abs_quot_less_def Let_def)




end
